theory Spec2Isabelle
  imports Main "HOL-Library.Sublist"
begin

section \<open>JavaScript values\<close>

text \<open>
  The values the tools and the proxy route handle: what \<^verbatim>\<open>response.json()\<close> yields, and
  the object literals the tools return. \<open>Undefined\<close> is what reading an absent property
  gives. An object is its list of properties in source order. Numbers are integers and
  stand for the doubles that print as plain decimal integers, those of magnitude below
  \<open>10^21\<close> (JSON \<^verbatim>\<open>1.0\<close> is \<open>Num 1\<close>); fractional and larger doubles are outside the
  model.
\<close>

datatype jsval =
    Undefined
  | Null
  | Bool bool
  | Num int
  | Str string
  | Arr "jsval list"
  | Obj "(string \<times> jsval) list"

text \<open>
  A thrown value. \<open>Thrown s\<close> is whatever \<^verbatim>\<open>fetch\<close> or \<^verbatim>\<open>json()\<close> rejected with, kept as
  the text a template literal renders it to. \<open>TypeError m\<close> is the engine's own error with
  message \<open>m\<close>, raised when a property of \<^verbatim>\<open>null\<close> or \<^verbatim>\<open>undefined\<close> is read or
  destructured. The messages are V8's.
\<close>

datatype js_exn = Thrown string | TypeError string

text \<open>Truthiness, as \<^verbatim>\<open>!x\<close>, \<^verbatim>\<open>if (x)\<close> and \<^verbatim>\<open>x || y\<close> test it.\<close>

fun truthy :: "jsval \<Rightarrow> bool" where
  "truthy Undefined = False"
| "truthy Null = False"
| "truthy (Bool b) = b"
| "truthy (Num n) = (n \<noteq> 0)"
| "truthy (Str s) = (s \<noteq> [])"
| "truthy (Arr xs) = True"
| "truthy (Obj kvs) = True"

definition js_or :: "jsval \<Rightarrow> jsval \<Rightarrow> jsval" where
  "js_or a b = (if truthy a then a else b)"

text \<open>
  Property read \<^verbatim>\<open>v.p\<close>, for the names this program reads (\<^verbatim>\<open>session_id\<close>,
  \<^verbatim>\<open>status\<close>, \<^verbatim>\<open>data\<close>, \<^verbatim>\<open>error\<close>), none of which a prototype defines: an object
  gives its own property (the last one of that name, as \<^verbatim>\<open>JSON.parse\<close> keeps it), any
  other value but \<^verbatim>\<open>null\<close> and \<^verbatim>\<open>undefined\<close> gives \<^verbatim>\<open>undefined\<close>, and those two throw.
\<close>

definition quoted :: "string \<Rightarrow> string" where
  "quoted p = [CHR 0x27] @ p @ [CHR 0x27]"

fun getProp :: "jsval \<Rightarrow> string \<Rightarrow> js_exn + jsval" where
  "getProp Undefined p =
     Inl (TypeError (''Cannot read properties of undefined (reading '' @ quoted p @ '')''))"
| "getProp Null p =
     Inl (TypeError (''Cannot read properties of null (reading '' @ quoted p @ '')''))"
| "getProp (Obj kvs) p = (case map_of (rev kvs) p of None \<Rightarrow> Inr Undefined | Some v \<Rightarrow> Inr v)"
| "getProp v p = Inr Undefined"

text \<open>
  Destructuring \<^verbatim>\<open>const { p } = await response.json()\<close>: the same read, but of
  \<^verbatim>\<open>null\<close> or \<^verbatim>\<open>undefined\<close> it throws with a message of its own.
\<close>

fun destructure :: "jsval \<Rightarrow> string \<Rightarrow> js_exn + jsval" where
  "destructure Undefined p =
     Inl (TypeError (''Cannot destructure property '' @ quoted p
                       @ '' of '' @ quoted ''(intermediate value)'' @ '' as it is undefined.''))"
| "destructure Null p =
     Inl (TypeError (''Cannot destructure property '' @ quoted p
                       @ '' of '' @ quoted ''(intermediate value)'' @ '' as it is null.''))"
| "destructure v p = getProp v p"

text \<open>Decimal digits of a natural number, and the decimal text of an integer.\<close>

fun digits :: "nat \<Rightarrow> string" where
  "digits n =
     (if n < 10 then [''0123456789'' ! n]
      else digits (n div 10) @ [''0123456789'' ! (n mod 10)])"

declare digits.simps [simp del]

definition intToString :: "int \<Rightarrow> string" where
  "intToString n = (if n < 0 then ''-'' @ digits (nat (- n)) else digits (nat n))"

definition join :: "string \<Rightarrow> string list \<Rightarrow> string" where
  "join sep xs = (case xs of [] \<Rightarrow> [] | y # ys \<Rightarrow> y @ concat (map (\<lambda>z. sep @ z) ys))"

text \<open>
  String conversion of a value inside a template literal \<^verbatim>\<open>`${v}`\<close>. A string is
  inserted as it is. An array joins its elements with commas, \<^verbatim>\<open>null\<close> and
  \<^verbatim>\<open>undefined\<close> elements giving the empty string. An object gives what
  \<^verbatim>\<open>Object.prototype.toString\<close> gives, which is the conversion of every object that has
  no \<^verbatim>\<open>toString\<close> property of its own; an object that has one is outside the model.
\<close>

fun toString :: "jsval \<Rightarrow> string" where
  "toString Undefined = ''undefined''"
| "toString Null = ''null''"
| "toString (Bool b) = (if b then ''true'' else ''false'')"
| "toString (Num n) = intToString n"
| "toString (Str s) = s"
| "toString (Arr xs) =
     join '','' (map (\<lambda>x. if x = Null \<or> x = Undefined then [] else toString x) xs)"
| "toString (Obj kvs) = ''[object Object]''"

text \<open>The text of a caught error in a template literal: for an error object, its name
  and its message.\<close>

fun exnText :: "js_exn \<Rightarrow> string" where
  "exnText (Thrown s) = s"
| "exnText (TypeError m) = ''TypeError: '' @ m"

section \<open>The network\<close>

text \<open>
  A request as \<^verbatim>\<open>fetch\<close> receives it. The body is the value handed to
  \<^verbatim>\<open>JSON.stringify\<close>, when there is one.
\<close>

record request =
  rmethod :: string
  url :: string
  headers :: "(string \<times> string) list"
  rbody :: "jsval option"

text \<open>
  What \<^verbatim>\<open>fetch\<close> resolves to: the HTTP status of the answer and the outcome of calling
  \<^verbatim>\<open>json()\<close> on it (a parse failure throws).
\<close>

record response =
  httpStatus :: nat
  json :: "js_exn + jsval"

text \<open>
  The effects of an execution, in order: each \<^verbatim>\<open>fetch\<close> with its request, each
  \<^verbatim>\<open>setTimeout\<close> wait with its milliseconds, each \<^verbatim>\<open>console.error\<close> line.
\<close>

datatype event = Fetched request | Waited nat | Logged string js_exn

fun isFetch :: "event \<Rightarrow> bool" where
  "isFetch (Fetched r) = True"
| "isFetch e = False"

definition fetchCount :: "event list \<Rightarrow> nat" where
  "fetchCount tr = length (filter isFetch tr)"

text \<open>
  The rest of the world is a function that answers the \<open>n\<close>-th \<^verbatim>\<open>fetch\<close> of an execution
  (counted from 0) for the request made: it rejects (\<open>Inl\<close>) or resolves to a response.
\<close>

type_synonym fetcher = "nat \<Rightarrow> request \<Rightarrow> js_exn + response"

definition doFetch :: "fetcher \<Rightarrow> request \<Rightarrow> event list \<Rightarrow> (js_exn + response) \<times> event list" where
  "doFetch net req tr = (net (fetchCount tr) req, tr @ [Fetched req])"

text \<open>\<^verbatim>\<open>await (await fetch(req)).json()\<close>: either step may throw.\<close>

definition fetchJson :: "fetcher \<Rightarrow> request \<Rightarrow> event list \<Rightarrow> (js_exn + jsval) \<times> event list" where
  "fetchJson net req tr =
     (case doFetch net req tr of
        (Inl e, tr') \<Rightarrow> (Inl e, tr')
      | (Inr resp, tr') \<Rightarrow> (json resp, tr'))"

definition getRequest :: "string \<Rightarrow> request" where
  "getRequest u = \<lparr>rmethod = ''GET'', url = u, headers = [], rbody = None\<rparr>"

section \<open>The tool set\<close>

subsection \<open>analyzeVideo\<close>

definition startRequest :: "string \<Rightarrow> request" where
  "startRequest video =
     \<lparr>rmethod = ''POST'',
      url = ''/api/video-analysis'',
      headers = [(''Content-Type'', ''application/json'')],
      rbody = Some (Obj [(''video_input'', Str video),
                         (''transcribe_model'', Str ''gpt-4o-mini-transcribe''),
                         (''vision_model'', Str ''gpt-4o-mini''),
                         (''frame_sample_rate'', Num 1)])\<rparr>"

definition statusRequest :: "jsval \<Rightarrow> request" where
  "statusRequest session_id = getRequest (''/api/video-analysis?sessionId='' @ toString session_id)"

definition maxAttempts :: nat where
  "maxAttempts = 60"

text \<open>
  The polling loop, from the state in which \<open>attempts\<close> iterations have gone by. \<open>Inl\<close> is
  an exception on its way to the \<^verbatim>\<open>catch\<close>, \<open>Inr\<close> a returned object.
\<close>

function poll :: "fetcher \<Rightarrow> jsval \<Rightarrow> nat \<Rightarrow> event list \<Rightarrow> (js_exn + jsval) \<times> event list" where
  "poll net session_id attempts tr =
     (if attempts < maxAttempts then
        (case fetchJson net (statusRequest session_id) (tr @ [Waited 5000]) of
           (Inl e, tr') \<Rightarrow> (Inl e, tr')
         | (Inr statusData, tr') \<Rightarrow>
             (case getProp statusData ''status'' of
                Inl e \<Rightarrow> (Inl e, tr')
              | Inr st \<Rightarrow>
                  if st = Str ''completed'' then
                    (case getProp statusData ''data'' of
                       Inl e \<Rightarrow> (Inl e, tr')
                     | Inr d \<Rightarrow>
                         (Inr (Obj [(''success'', Bool True),
                                    (''sessionId'', session_id),
                                    (''analysis'', d)]), tr'))
                  else if st = Str ''error'' then
                    (case getProp statusData ''error'' of
                       Inl e \<Rightarrow> (Inl e, tr')
                     | Inr err \<Rightarrow>
                         (Inr (Obj [(''error'', js_or err (Str ''Analysis failed''))]), tr'))
                  else poll net session_id (attempts + 1) tr'))
      else (Inr (Obj [(''error'', Str ''Analysis timeout'')]), tr))"
  by pat_completeness auto
termination
  by (relation "measure (\<lambda>(net, session_id, attempts, tr). maxAttempts - attempts)") auto

declare poll.simps [simp del]

text \<open>The body of the \<^verbatim>\<open>try\<close> block.\<close>

definition analyzeVideoTry ::
  "fetcher \<Rightarrow> string \<Rightarrow> event list \<Rightarrow> (js_exn + jsval) \<times> event list" where
  "analyzeVideoTry net videoUrl tr =
     (case fetchJson net (startRequest videoUrl) tr of
        (Inl e, tr') \<Rightarrow> (Inl e, tr')
      | (Inr startData, tr') \<Rightarrow>
          (case destructure startData ''session_id'' of
             Inl e \<Rightarrow> (Inl e, tr')
           | Inr session_id \<Rightarrow>
               if \<not> truthy session_id then
                 (Inr (Obj [(''error'', Str ''Failed to start analysis'')]), tr')
               else poll net session_id 0 tr'))"

text \<open>
  \<^verbatim>\<open>analyzeVideo.execute\<close>, called with \<^verbatim>\<open>{videoUrl, analysisType}\<close>
  (\<open>None\<close> when \<^verbatim>\<open>analysisType\<close> is left out). The parameter is given its default
  \<^verbatim>\<open>'full'\<close> and then never read.
\<close>

definition analyzeVideo_execute ::
  "fetcher \<Rightarrow> string \<Rightarrow> string option \<Rightarrow> event list \<Rightarrow> jsval \<times> event list" where
  "analyzeVideo_execute net videoUrl analysisType tr =
     (let analysisType' = (case analysisType of None \<Rightarrow> ''full'' | Some t \<Rightarrow> t)
      in case analyzeVideoTry net videoUrl tr of
           (Inl e, tr') \<Rightarrow> (Obj [(''error'', Str (''Analysis error: '' @ exnText e))], tr')
         | (Inr v, tr') \<Rightarrow> (v, tr'))"

subsection \<open>getTranscript and getSceneDescription\<close>

text \<open>
  Both take the session identifier and an optional timestamp (a number, here an integer),
  make one request and wrap what comes back; every exception becomes an error object.
\<close>

definition retrievalUrl :: "string \<Rightarrow> string \<Rightarrow> int option \<Rightarrow> string" where
  "retrievalUrl action sessionId timestamp =
     (let u = ''/api/video-analysis?sessionId='' @ sessionId @ ''&action='' @ action
      in case timestamp of
           None \<Rightarrow> u
         | Some t \<Rightarrow> u @ ''&timestamp='' @ intToString t)"

definition getTranscript_execute ::
  "fetcher \<Rightarrow> string \<Rightarrow> int option \<Rightarrow> event list \<Rightarrow> jsval \<times> event list" where
  "getTranscript_execute net sessionId timestamp tr =
     (case fetchJson net (getRequest (retrievalUrl ''transcript'' sessionId timestamp)) tr of
        (Inl e, tr') \<Rightarrow>
          (Obj [(''error'', Str (''Failed to get transcript: '' @ exnText e))], tr')
      | (Inr d, tr') \<Rightarrow> (Obj [(''success'', Bool True), (''transcript'', d)], tr'))"

definition getSceneDescription_execute ::
  "fetcher \<Rightarrow> string \<Rightarrow> int option \<Rightarrow> event list \<Rightarrow> jsval \<times> event list" where
  "getSceneDescription_execute net sessionId timestamp tr =
     (case fetchJson net (getRequest (retrievalUrl ''scenes'' sessionId timestamp)) tr of
        (Inl e, tr') \<Rightarrow>
          (Obj [(''error'', Str (''Failed to get scenes: '' @ exnText e))], tr')
      | (Inr d, tr') \<Rightarrow> (Obj [(''success'', Bool True), (''scenes'', d)], tr'))"

subsection \<open>processVoiceCommand\<close>

text \<open>
  \<^verbatim>\<open>toLowerCase\<close> on the letters A to Z; every other character stays. (No character
  outside ASCII lowers to a run of letters that could complete one of the keywords.)
\<close>

definition toLowerChar :: "char \<Rightarrow> char" where
  "toLowerChar c =
     (case map_of (zip ''ABCDEFGHIJKLMNOPQRSTUVWXYZ'' ''abcdefghijklmnopqrstuvwxyz'') c of
        None \<Rightarrow> c
      | Some l \<Rightarrow> l)"

definition toLowerCase :: "string \<Rightarrow> string" where
  "toLowerCase s = map toLowerChar s"

text \<open>\<^verbatim>\<open>str.includes(s)\<close>: \<open>s\<close> occurs in \<open>str\<close> as a contiguous run.\<close>

definition includesStr :: "string \<Rightarrow> string \<Rightarrow> bool" where
  "includesStr str s = sublist s str"

text \<open>
  \<^verbatim>\<open>processVoiceCommand.execute\<close>, called with \<^verbatim>\<open>{command, sessionId}\<close>. The test
  \<^verbatim>\<open>if (sessionId)\<close> fails for a missing identifier and for the empty string.
\<close>

definition processVoiceCommand_execute ::
  "fetcher \<Rightarrow> string \<Rightarrow> string option \<Rightarrow> event list \<Rightarrow> jsval \<times> event list" where
  "processVoiceCommand_execute net command sessionId tr =
     (let commandLower = toLowerCase command in
      if includesStr commandLower ''play'' \<or> includesStr commandLower ''resume'' then
        (Obj [(''action'', Str ''play''), (''message'', Str ''Playing video'')], tr)
      else if includesStr commandLower ''pause'' then
        (Obj [(''action'', Str ''pause''), (''message'', Str ''Video paused'')], tr)
      else if includesStr commandLower ''stop'' then
        (Obj [(''action'', Str ''stop''), (''message'', Str ''Video stopped'')], tr)
      else if includesStr commandLower ''describe'' then
        (case sessionId of
           Some s \<Rightarrow>
             if s \<noteq> [] then
               (case getSceneDescription_execute net s None tr of
                  (response, tr') \<Rightarrow>
                    (Obj [(''action'', Str ''describe''), (''data'', response)], tr'))
             else (Obj [(''action'', Str ''describe''), (''message'', Str ''No active session'')], tr)
         | None \<Rightarrow>
             (Obj [(''action'', Str ''describe''), (''message'', Str ''No active session'')], tr))
      else if includesStr commandLower ''transcript'' \<or> includesStr commandLower ''transcribe'' then
        (case sessionId of
           Some s \<Rightarrow>
             if s \<noteq> [] then
               (case getTranscript_execute net s None tr of
                  (response, tr') \<Rightarrow>
                    (Obj [(''action'', Str ''transcript''), (''data'', response)], tr'))
             else (Obj [(''action'', Str ''transcript''), (''message'', Str ''No active session'')], tr)
         | None \<Rightarrow>
             (Obj [(''action'', Str ''transcript''), (''message'', Str ''No active session'')], tr))
      else (Obj [(''error'', Str ''Command not recognized'')], tr))"

section \<open>The proxy route\<close>

text \<open>
  \<^verbatim>\<open>process.env.PYTHON_API_URL || 'http://localhost:8000'\<close>: an unset or empty variable
  gives the default.
\<close>

definition PYTHON_API_URL :: "string option \<Rightarrow> string" where
  "PYTHON_API_URL env =
     (case env of
        None \<Rightarrow> ''http://localhost:8000''
      | Some s \<Rightarrow> if s = [] then ''http://localhost:8000'' else s)"

text \<open>
  \<^verbatim>\<open>encodeURIComponent\<close> on a string held as its UTF-8 bytes: letters, digits and
  \<^verbatim>\<open>- _ . ! ~ * ' ( )\<close> stay, every other byte becomes \<^verbatim>\<open>%XX\<close> in upper-case hex.
\<close>

definition unreserved :: "char \<Rightarrow> bool" where
  "unreserved c =
     (c \<in> set (''ABCDEFGHIJKLMNOPQRSTUVWXYZabcdefghijklmnopqrstuvwxyz0123456789-_.!~*()''
               @ [CHR 0x27]))"

definition hexDigit :: "nat \<Rightarrow> char" where
  "hexDigit n = ''0123456789ABCDEF'' ! n"

definition encodeChar :: "char \<Rightarrow> string" where
  "encodeChar c =
     (if unreserved c then [c]
      else [CHR ''%'', hexDigit ((of_char c :: nat) div 16), hexDigit ((of_char c :: nat) mod 16)])"

definition encodeURIComponent :: "string \<Rightarrow> string" where
  "encodeURIComponent s = concat (map encodeChar s)"

text \<open>What \<^verbatim>\<open>NextResponse.json(data, {status})\<close> builds; the status is 200 when none is given.\<close>

record nextResponse =
  status :: nat
  body :: jsval

definition NextResponse_json :: "jsval \<Rightarrow> nat option \<Rightarrow> nextResponse" where
  "NextResponse_json d st = \<lparr>status = (case st of None \<Rightarrow> 200 | Some n \<Rightarrow> n), body = d\<rparr>"

text \<open>
  The backend endpoint the read handler builds from the session identifier, the
  \<^verbatim>\<open>action\<close> parameter and the other search parameters. \<open>searchParams\<close> is the decoded
  query of the request, in order; \<^verbatim>\<open>searchParams.get\<close> gives the first value of a name.
\<close>

definition withTimestamp :: "string \<Rightarrow> string option \<Rightarrow> string" where
  "withTimestamp endpoint timestamp =
     (case timestamp of
        None \<Rightarrow> endpoint
      | Some t \<Rightarrow> if t = [] then endpoint else endpoint @ ''?timestamp='' @ t)"

definition backendEndpoint :: "(string \<times> string) list \<Rightarrow> string \<Rightarrow> string" where
  "backendEndpoint searchParams sessionId =
     (let action = map_of searchParams ''action'' in
      if action = Some ''transcript'' then
        withTimestamp (''/api/transcript/'' @ sessionId) (map_of searchParams ''timestamp'')
      else if action = Some ''scenes'' then
        withTimestamp (''/api/scenes/'' @ sessionId) (map_of searchParams ''timestamp'')
      else if action = Some ''comparison'' then
        ''/api/comparison/'' @ sessionId
      else if action = Some ''search'' then
        (let query = map_of searchParams ''query'' in
         ''/api/search?session_id='' @ sessionId @ ''&query=''
           @ encodeURIComponent (case query of None \<Rightarrow> [] | Some q \<Rightarrow> q))
      else ''/api/status/'' @ sessionId)"

text \<open>
  The read handler \<^verbatim>\<open>GET\<close>. \<open>env\<close> is the environment variable. The status of the
  backend's answer is never read: the handler answers through \<^verbatim>\<open>NextResponse.json(data)\<close>.
\<close>

definition GET ::
  "string option \<Rightarrow> fetcher \<Rightarrow> (string \<times> string) list \<Rightarrow> event list
     \<Rightarrow> nextResponse \<times> event list" where
  "GET env net searchParams tr =
     (case map_of searchParams ''sessionId'' of
        None \<Rightarrow> (NextResponse_json (Obj [(''error'', Str ''Session ID required'')]) (Some 400), tr)
      | Some sessionId \<Rightarrow>
          if sessionId = [] then
            (NextResponse_json (Obj [(''error'', Str ''Session ID required'')]) (Some 400), tr)
          else
            (case fetchJson net
                    (getRequest (PYTHON_API_URL env @ backendEndpoint searchParams sessionId)) tr of
               (Inl e, tr') \<Rightarrow>
                 (NextResponse_json (Obj [(''error'', Str ''Failed to fetch analysis data'')])
                    (Some 500),
                  tr' @ [Logged ''Video analysis fetch error:'' e])
             | (Inr d, tr') \<Rightarrow> (NextResponse_json d None, tr')))"

text \<open>
  The write handler \<^verbatim>\<open>POST\<close>: \<open>reqBody\<close> is the outcome of \<^verbatim>\<open>request.json()\<close>. It
  answers the same way, without reading the backend's status.
\<close>

definition POST ::
  "string option \<Rightarrow> fetcher \<Rightarrow> js_exn + jsval \<Rightarrow> event list \<Rightarrow> nextResponse \<times> event list" where
  "POST env net reqBody tr =
     (case (case reqBody of
              Inl e \<Rightarrow> (Inl e, tr)
            | Inr b \<Rightarrow>
                fetchJson net
                  \<lparr>rmethod = ''POST'',
                   url = PYTHON_API_URL env @ ''/api/analyze'',
                   headers = [(''Content-Type'', ''application/json'')],
                   rbody = Some b\<rparr> tr) of
        (Inl e, tr') \<Rightarrow>
          (NextResponse_json (Obj [(''error'', Str ''Failed to start video analysis'')]) (Some 500),
           tr' @ [Logged ''Video analysis error:'' e])
      | (Inr d, tr') \<Rightarrow> (NextResponse_json d None, tr'))"

section \<open>Describing the backend's answers\<close>

text \<open>
  The status a poll answer reports: \<open>None\<close> when \<^verbatim>\<open>fetch\<close> rejected, the body did not
  parse, or the body has no properties to read (\<^verbatim>\<open>null\<close>).
\<close>

definition reportedStatus :: "js_exn + response \<Rightarrow> jsval option" where
  "reportedStatus out =
     (case out of
        Inl e \<Rightarrow> None
      | Inr resp \<Rightarrow>
          (case json resp of
             Inl e \<Rightarrow> None
           | Inr d \<Rightarrow> (case getProp d ''status'' of Inl e \<Rightarrow> None | Inr st \<Rightarrow> Some st)))"

text \<open>An answer that leaves the session pending: it reports a status, and the status is
  neither \<^verbatim>\<open>'completed'\<close> nor \<^verbatim>\<open>'error'\<close>.\<close>

definition pendingAnswer :: "js_exn + response \<Rightarrow> bool" where
  "pendingAnswer out =
     (case reportedStatus out of
        None \<Rightarrow> False
      | Some st \<Rightarrow> st \<noteq> Str ''completed'' \<and> st \<noteq> Str ''error'')"

text \<open>The trace of \<open>n\<close> rounds of the polling loop for a session.\<close>

definition pollRounds :: "jsval \<Rightarrow> nat \<Rightarrow> event list" where
  "pollRounds session_id n = concat (replicate n [Waited 5000, Fetched (statusRequest session_id)])"

text \<open>The requests of a trace, in order.\<close>

fun requestsOf :: "event list \<Rightarrow> request list" where
  "requestsOf [] = []"
| "requestsOf (Fetched r # es) = r # requestsOf es"
| "requestsOf (e # es) = requestsOf es"

text \<open>
  Sample backends: one that answers every request with the same response, and one that
  answers the \<open>n\<close>-th request with the \<open>n\<close>-th response of a list and rejects once the
  list is used up.
\<close>

definition answering :: "response \<Rightarrow> fetcher" where
  "answering r n req = Inr r"

definition scripted :: "response list \<Rightarrow> fetcher" where
  "scripted rs n req =
     (if n < length rs then Inr (rs ! n) else Inl (Thrown ''TypeError: Failed to fetch''))"

definition ok :: "jsval \<Rightarrow> response" where
  "ok d = \<lparr>httpStatus = 200, json = Inr d\<rparr>"

definition completesOnSecondPoll :: fetcher where
  "completesOnSecondPoll =
     scripted [ok (Obj [(''session_id'', Str ''abc''), (''status'', Str ''pending'')]),
               ok (Obj [(''status'', Str ''pending'')]),
               ok (Obj [(''status'', Str ''completed''), (''data'', Num 7)])]"

definition failsOnSecondPoll :: fetcher where
  "failsOnSecondPoll =
     scripted [ok (Obj [(''session_id'', Str ''abc''), (''status'', Str ''pending'')]),
               ok (Obj [(''status'', Str ''processing'')]),
               ok (Obj [(''status'', Str ''error''), (''error'', Str ''Video not found'')])]"

definition neverCompletes :: fetcher where
  "neverCompletes = answering (ok (Obj [(''session_id'', Str ''abc''), (''status'', Str ''pending'')]))"

text \<open>A backend answer with a status other than 200 and a JSON body.\<close>

definition notFound :: response where
  "notFound = \<lparr>httpStatus = 404, json = Inr (Obj [(''detail'', Str ''Session not found'')])\<rparr>"

section \<open>The voice-command classifier as the specification words it\<close>

text \<open>
  Case-insensitive substring matching, said without the program's own lowering: two
  characters agree when they are equal or one is the capital of the other, and a keyword
  occurs in a text when, at some position, the text goes on with characters that agree
  with the keyword's one by one.
\<close>

definition capitalOf :: "char \<Rightarrow> char option" where
  "capitalOf c = map_of (zip ''abcdefghijklmnopqrstuvwxyz'' ''ABCDEFGHIJKLMNOPQRSTUVWXYZ'') c"

definition sameIgnoringCase :: "char \<Rightarrow> char \<Rightarrow> bool" where
  "sameIgnoringCase a b = (a = b \<or> capitalOf a = Some b \<or> capitalOf b = Some a)"

fun startsWithIgnoringCase :: "string \<Rightarrow> string \<Rightarrow> bool" where
  "startsWithIgnoringCase text [] = True"
| "startsWithIgnoringCase [] (k # ks) = False"
| "startsWithIgnoringCase (t # ts) (k # ks) =
     (sameIgnoringCase t k \<and> startsWithIgnoringCase ts ks)"

fun occursIgnoringCase :: "string \<Rightarrow> string \<Rightarrow> bool" where
  "occursIgnoringCase [] keyword = (keyword = [])"
| "occursIgnoringCase (t # ts) keyword =
     (startsWithIgnoringCase (t # ts) keyword \<or> occursIgnoringCase ts keyword)"

definition smallLetter :: "char \<Rightarrow> bool" where
  "smallLetter k = (k \<in> set ''abcdefghijklmnopqrstuvwxyz'')"

text \<open>
  The specification's intents, and its rule: the keyword groups in a fixed priority order,
  the first group with a keyword that occurs in the text deciding, and \<open>Unrecognized\<close>
  when none occurs.
\<close>

datatype intent = Play | Pause | Stop | Describe | Transcript | Unrecognized

definition priorityOrder :: "(string list \<times> intent) list" where
  "priorityOrder =
     [([''play'', ''resume''], Play),
      ([''pause''], Pause),
      ([''stop''], Stop),
      ([''describe''], Describe),
      ([''transcript'', ''transcribe''], Transcript)]"

definition specClassify :: "string \<Rightarrow> intent" where
  "specClassify str =
     (case find (\<lambda>(keywords, i). list_ex (occursIgnoringCase str) keywords) priorityOrder of
        None \<Rightarrow> Unrecognized
      | Some (keywords, i) \<Rightarrow> i)"

section \<open>URL encoding as a reader of the URL sees it\<close>

text \<open>
  The characters that stand for themselves in an encoded component, the characters an
  encoded component may consist of (those and the percent sign), and the decoding of a
  component: \<^verbatim>\<open>%XY\<close> is the byte with the hexadecimal digits \<^verbatim>\<open>X\<close> and \<^verbatim>\<open>Y\<close>, any
  other character is itself, and a percent sign not followed by two digits is malformed.
\<close>

definition hexValue :: "char \<Rightarrow> nat option" where
  "hexValue c =
     map_of (zip ''0123456789ABCDEFabcdef''
                 [0, 1, 2, 3, 4, 5, 6, 7, 8, 9, 10, 11, 12, 13, 14, 15, 10, 11, 12, 13, 14, 15]) c"

fun percentDecode :: "string \<Rightarrow> string option" where
  "percentDecode [] = Some []"
| "percentDecode (c # cs) =
     (if c = CHR ''%'' then
        (case cs of
           h # l # rest \<Rightarrow>
             (case (hexValue h, hexValue l) of
                (Some a, Some b) \<Rightarrow> map_option ((#) (char_of (16 * a + b))) (percentDecode rest)
              | _ \<Rightarrow> None)
         | _ \<Rightarrow> None)
      else map_option ((#) c) (percentDecode cs))"

definition urlPlain :: "char \<Rightarrow> bool" where
  "urlPlain c =
     (c \<in> set ''abcdefghijklmnopqrstuvwxyz'' \<or> c \<in> set ''ABCDEFGHIJKLMNOPQRSTUVWXYZ'' \<or>
      c \<in> set ''0123456789'' \<or> c \<in> set (''-_.!~*()'' @ [CHR 0x27]))"

definition urlSafe :: "char \<Rightarrow> bool" where
  "urlSafe c = (urlPlain c \<or> c = CHR ''%'')"

section \<open>Facts about traces and the polling loop\<close>

lemma fetchCount_simps [simp]:
  "fetchCount [] = 0"
  "fetchCount (tr @ [Waited ms]) = fetchCount tr"
  "fetchCount (tr @ [Fetched r]) = Suc (fetchCount tr)"
  "fetchCount (tr @ [Waited ms, Fetched r]) = Suc (fetchCount tr)"
  by (simp_all add: fetchCount_def)

lemma fetchJson_trace: "snd (fetchJson net req tr) = tr @ [Fetched req]"
  by (simp add: fetchJson_def doFetch_def split: sum.splits)

lemma requestsOf_append [simp]: "requestsOf (xs @ ys) = requestsOf xs @ requestsOf ys"
  by (induction xs rule: requestsOf.induct) simp_all

lemma pollRounds_snoc:
  "pollRounds sid (Suc n) = pollRounds sid n @ [Waited 5000, Fetched (statusRequest sid)]"
  by (induction n) (simp_all add: pollRounds_def)

lemma fetchCount_pollRounds [simp]: "fetchCount (tr @ pollRounds sid n) = fetchCount tr + n"
  by (induction n) (simp_all add: pollRounds_def fetchCount_def)

lemma requestsOf_pollRounds [simp]:
  "requestsOf (pollRounds sid n) = replicate n (statusRequest sid)"
  by (induction n) (simp_all add: pollRounds_def)

text \<open>Once one property of a value has been read, reading another cannot throw.\<close>

lemma getProp_total: "getProp d p = Inr x \<Longrightarrow> \<exists>v. getProp d q = Inr v"
  by (cases d) (auto split: option.splits)

text \<open>Where the read succeeds, destructuring is the read.\<close>

lemma destructure_read: "getProp d p = Inr x \<Longrightarrow> destructure d p = Inr x"
  by (cases d) simp_all

lemma pendingAnswerE:
  assumes "pendingAnswer out"
  obtains resp d st where "out = Inr resp" "json resp = Inr d" "getProp d ''status'' = Inr st"
    "st \<noteq> Str ''completed''" "st \<noteq> Str ''error''"
  using assms
  by (auto simp: pendingAnswer_def reportedStatus_def split: sum.splits option.splits)

text \<open>One round of the loop, for each of the three things the answer can be.\<close>

lemma poll_step_pending:
  assumes "a < maxAttempts"
    and "pendingAnswer (net (fetchCount tr) (statusRequest sid))"
  shows "poll net sid a tr = poll net sid (Suc a) (tr @ [Waited 5000, Fetched (statusRequest sid)])"
proof -
  from assms(2) obtain resp d st where
    "net (fetchCount tr) (statusRequest sid) = Inr resp" "json resp = Inr d"
    "getProp d ''status'' = Inr st" "st \<noteq> Str ''completed''" "st \<noteq> Str ''error''"
    by (rule pendingAnswerE)
  with assms(1) show ?thesis
    by (subst poll.simps) (simp add: fetchJson_def doFetch_def)
qed

lemma poll_step_completed:
  assumes "a < maxAttempts"
    and "net (fetchCount tr) (statusRequest sid) = Inr resp"
    and "json resp = Inr d"
    and "getProp d ''status'' = Inr (Str ''completed'')"
    and "getProp d ''data'' = Inr v"
  shows "poll net sid a tr =
           (Inr (Obj [(''success'', Bool True), (''sessionId'', sid), (''analysis'', v)]),
            tr @ [Waited 5000, Fetched (statusRequest sid)])"
  using assms
  by (subst poll.simps) (simp add: fetchJson_def doFetch_def)

lemma poll_step_error:
  assumes "a < maxAttempts"
    and "net (fetchCount tr) (statusRequest sid) = Inr resp"
    and "json resp = Inr d"
    and "getProp d ''status'' = Inr (Str ''error'')"
    and "getProp d ''error'' = Inr err"
  shows "poll net sid a tr =
           (Inr (Obj [(''error'', js_or err (Str ''Analysis failed''))]),
            tr @ [Waited 5000, Fetched (statusRequest sid)])"
  using assms
  by (subst poll.simps) (simp add: fetchJson_def doFetch_def)

lemma poll_exhausted:
  "maxAttempts \<le> a \<Longrightarrow>
     poll net sid a tr = (Inr (Obj [(''error'', Str ''Analysis timeout'')]), tr)"
  by (subst poll.simps) simp

text \<open>\<open>n\<close> pending answers in a row take the loop through \<open>n\<close> rounds.\<close>

lemma poll_pending_rounds:
  assumes "\<forall>i<n. pendingAnswer (net (fetchCount tr + i) (statusRequest sid))"
    and "a + n \<le> maxAttempts"
  shows "poll net sid a tr = poll net sid (a + n) (tr @ pollRounds sid n)"
  using assms
proof (induction n)
  case 0
  then show ?case by (simp add: pollRounds_def)
next
  case (Suc n)
  have "poll net sid a tr = poll net sid (a + n) (tr @ pollRounds sid n)"
    using Suc by simp
  also have "\<dots> = poll net sid (Suc (a + n))
                      ((tr @ pollRounds sid n) @ [Waited 5000, Fetched (statusRequest sid)])"
    using Suc.prems by (intro poll_step_pending) simp_all
  finally show ?case by (simp add: pollRounds_snoc)
qed

lemma analyze_started:
  assumes "net (fetchCount tr) (startRequest u) = Inr r0"
    and "json r0 = Inr d0"
    and "getProp d0 ''session_id'' = Inr sid"
    and "truthy sid"
  shows "analyzeVideoTry net u tr = poll net sid 0 (tr @ [Fetched (startRequest u)])"
  using assms by (simp add: analyzeVideoTry_def fetchJson_def doFetch_def destructure_read)

text \<open>
  The loop only ever appends to the trace, and every request it adds is the status request
  of its session.
\<close>

lemma poll_trace:
  "\<exists>ext. snd (poll net sid a tr) = tr @ ext \<and> set (requestsOf ext) \<subseteq> {statusRequest sid}"
proof (induction net sid a tr rule: poll.induct)
  case (1 net sid a tr)
  show ?case
  proof (cases "a < maxAttempts")
    case False
    then show ?thesis by (subst poll.simps) simp
  next
    case True
    let ?tr' = "tr @ [Waited 5000, Fetched (statusRequest sid)]"
    show ?thesis
    proof (cases "pendingAnswer (net (fetchCount tr) (statusRequest sid))")
      case pend: True
      then obtain resp d st where *:
        "net (fetchCount tr) (statusRequest sid) = Inr resp" "json resp = Inr d"
        "getProp d ''status'' = Inr st" "st \<noteq> Str ''completed''" "st \<noteq> Str ''error''"
        by (rule pendingAnswerE)
      have fj: "fetchJson net (statusRequest sid) (tr @ [Waited 5000]) = (Inr d, ?tr')"
        using * by (simp add: fetchJson_def doFetch_def)
      from "1.IH" [OF True fj [symmetric] refl *(3) *(4) *(5)]
      obtain ext where "snd (poll net sid (a + 1) ?tr') = ?tr' @ ext"
        "set (requestsOf ext) \<subseteq> {statusRequest sid}" by blast
      then have "snd (poll net sid a tr) = tr @ ([Waited 5000, Fetched (statusRequest sid)] @ ext)
          \<and> set (requestsOf ([Waited 5000, Fetched (statusRequest sid)] @ ext)) \<subseteq> {statusRequest sid}"
        using poll_step_pending [of a net tr sid] True pend by simp
      then show ?thesis by blast
    next
      case False
      have "snd (poll net sid a tr) = tr @ [Waited 5000, Fetched (statusRequest sid)]"
        using True False
        by (subst poll.simps)
           (auto simp: fetchJson_def doFetch_def pendingAnswer_def reportedStatus_def
                 split: sum.splits)
      then have "snd (poll net sid a tr) = tr @ [Waited 5000, Fetched (statusRequest sid)]
         \<and> set (requestsOf [Waited 5000, Fetched (statusRequest sid)]) \<subseteq> {statusRequest sid}"
        by simp
      then show ?thesis by blast
    qed
  qed
qed


lemma analyzeVideoTry_trace:
  "\<exists>ext. snd (analyzeVideoTry net u tr) = tr @ Fetched (startRequest u) # ext"
proof -
  obtain r tr' where f: "fetchJson net (startRequest u) tr = (r, tr')" by (cases "fetchJson net (startRequest u) tr")
  then have tr': "tr' = tr @ [Fetched (startRequest u)]"
    using fetchJson_trace [of net "startRequest u" tr] by simp
  show ?thesis
    using poll_trace [of net _ 0 "tr @ [Fetched (startRequest u)]"]
    by (auto simp: analyzeVideoTry_def f tr' split: sum.splits)
qed

lemma analyzeVideo_execute_trace: "snd (analyzeVideo_execute net u a tr) = snd (analyzeVideoTry net u tr)"
  by (simp add: analyzeVideo_execute_def split: prod.splits sum.splits)

section \<open>The start-and-poll operation\<close>

text \<open>
  C1. When the start call returns a session identifier, the status queries before the
  \<open>k\<close>-th leave the session pending and the \<open>k\<close>-th (\<open>1 \<le> k \<le> 60\<close>) reports
  \<^verbatim>\<open>'completed'\<close>, the operation returns
  \<^verbatim>\<open>{success: true, sessionId, analysis: <backend data>}\<close>, and what it has done is the
  start request followed by exactly \<open>k\<close> rounds of waiting and querying: \<open>k\<close> status
  queries and none after the one that reported completion.
\<close>

theorem analyzeVideo_completed_on_kth_poll:
  assumes start: "net 0 (startRequest videoUrl) = Inr r0" "json r0 = Inr d0"
      "getProp d0 ''session_id'' = Inr sid" "truthy sid"
    and k: "1 \<le> k" "k \<le> 60"
    and pending: "\<forall>i. 1 \<le> i \<and> i < k \<longrightarrow> pendingAnswer (net i (statusRequest sid))"
    and completed: "net k (statusRequest sid) = Inr r" "json r = Inr d"
      "getProp d ''status'' = Inr (Str ''completed'')"
  shows "\<exists>v. getProp d ''data'' = Inr v \<and>
           analyzeVideo_execute net videoUrl analysisType [] =
             (Obj [(''success'', Bool True), (''sessionId'', sid), (''analysis'', v)],
              Fetched (startRequest videoUrl) # pollRounds sid k) \<and>
           requestsOf (snd (analyzeVideo_execute net videoUrl analysisType [])) =
             startRequest videoUrl # replicate k (statusRequest sid)"
proof -
  obtain v where v: "getProp d ''data'' = Inr v"
    using getProp_total [OF completed(3)] by blast
  define tr0 where "tr0 = [Fetched (startRequest videoUrl)]"
  have c0: "fetchCount tr0 = 1" by (simp add: tr0_def fetchCount_def)
  obtain n where n: "k = Suc n" using k(1) by (cases k) simp_all
  have "analyzeVideoTry net videoUrl [] = poll net sid 0 tr0"
    using analyze_started [of net "[]" videoUrl r0 d0 sid] start by (simp add: tr0_def)
  also have "\<dots> = poll net sid (0 + n) (tr0 @ pollRounds sid n)"
    using pending k(2) n c0 by (intro poll_pending_rounds) (simp_all add: maxAttempts_def)
  also have "\<dots> = (Inr (Obj [(''success'', Bool True), (''sessionId'', sid), (''analysis'', v)]),
                    (tr0 @ pollRounds sid n) @ [Waited 5000, Fetched (statusRequest sid)])"
    using completed v k(2) n c0 by (intro poll_step_completed) (simp_all add: maxAttempts_def)
  finally have "analyzeVideoTry net videoUrl [] =
      (Inr (Obj [(''success'', Bool True), (''sessionId'', sid), (''analysis'', v)]),
       Fetched (startRequest videoUrl) # pollRounds sid k)"
    by (simp add: tr0_def n pollRounds_snoc)
  then show ?thesis using v by (simp add: analyzeVideo_execute_def)
qed

theorem analyzeVideo_completed_on_kth_poll_witness:
  "pendingAnswer (completesOnSecondPoll 1 (statusRequest (Str ''abc''))) \<and>
   analyzeVideo_execute completesOnSecondPoll ''http://v'' None [] =
     (Obj [(''success'', Bool True), (''sessionId'', Str ''abc''), (''analysis'', Num 7)],
      Fetched (startRequest ''http://v'') # pollRounds (Str ''abc'') 2)"
proof -
  have p: "\<forall>i. 1 \<le> i \<and> i < 2 \<longrightarrow>
             pendingAnswer (completesOnSecondPoll i (statusRequest (Str ''abc'')))"
  proof (intro allI impI)
    fix i :: nat assume "1 \<le> i \<and> i < 2"
    then have "i = 1" by simp
    then show "pendingAnswer (completesOnSecondPoll i (statusRequest (Str ''abc'')))"
      by (simp add: completesOnSecondPoll_def scripted_def ok_def pendingAnswer_def
            reportedStatus_def)
  qed
  from p have p1: "pendingAnswer (completesOnSecondPoll 1 (statusRequest (Str ''abc'')))"
    by simp
  show ?thesis
    using p p1 analyzeVideo_completed_on_kth_poll
      [of completesOnSecondPoll "''http://v''"
          "ok (Obj [(''session_id'', Str ''abc''), (''status'', Str ''pending'')])"
          "Obj [(''session_id'', Str ''abc''), (''status'', Str ''pending'')]"
          "Str ''abc''" 2
          "ok (Obj [(''status'', Str ''completed''), (''data'', Num 7)])"
          "Obj [(''status'', Str ''completed''), (''data'', Num 7)]" None]
    by (simp add: completesOnSecondPoll_def scripted_def ok_def)
qed

text \<open>
  C2. When the start call returns a session identifier and each of the status queries
  leaves the session pending (its status neither \<^verbatim>\<open>'completed'\<close> nor \<^verbatim>\<open>'error'\<close>), the
  loop ends after exactly 60 status queries and the operation returns
  \<^verbatim>\<open>{error: 'Analysis timeout'}\<close>.
\<close>

theorem analyzeVideo_timeout_after_60_polls:
  assumes start: "net 0 (startRequest videoUrl) = Inr r0" "json r0 = Inr d0"
      "getProp d0 ''session_id'' = Inr sid" "truthy sid"
    and pending: "\<forall>i. 1 \<le> i \<and> i \<le> 60 \<longrightarrow> pendingAnswer (net i (statusRequest sid))"
  shows "analyzeVideo_execute net videoUrl analysisType [] =
           (Obj [(''error'', Str ''Analysis timeout'')],
            Fetched (startRequest videoUrl) # pollRounds sid 60)
         \<and> requestsOf (snd (analyzeVideo_execute net videoUrl analysisType [])) =
             startRequest videoUrl # replicate 60 (statusRequest sid)"
proof -
  define tr0 where "tr0 = [Fetched (startRequest videoUrl)]"
  have c0: "fetchCount tr0 = 1" by (simp add: tr0_def fetchCount_def)
  have "analyzeVideoTry net videoUrl [] = poll net sid 0 tr0"
    using analyze_started [of net "[]" videoUrl r0 d0 sid] start by (simp add: tr0_def)
  also have "\<dots> = poll net sid (0 + 60) (tr0 @ pollRounds sid 60)"
    using pending c0 by (intro poll_pending_rounds) (simp_all add: maxAttempts_def)
  also have "\<dots> = (Inr (Obj [(''error'', Str ''Analysis timeout'')]), tr0 @ pollRounds sid 60)"
    by (intro poll_exhausted) (simp add: maxAttempts_def)
  finally have "analyzeVideoTry net videoUrl [] =
      (Inr (Obj [(''error'', Str ''Analysis timeout'')]),
       Fetched (startRequest videoUrl) # pollRounds sid 60)"
    by (simp add: tr0_def)
  then show ?thesis by (simp add: analyzeVideo_execute_def)
qed

theorem analyzeVideo_timeout_after_60_polls_witness:
  "pendingAnswer (neverCompletes 60 (statusRequest (Str ''abc''))) \<and>
   analyzeVideo_execute neverCompletes ''http://v'' None [] =
     (Obj [(''error'', Str ''Analysis timeout'')],
      Fetched (startRequest ''http://v'') # pollRounds (Str ''abc'') 60)"
  using analyzeVideo_timeout_after_60_polls
    [of neverCompletes "''http://v''"
        "ok (Obj [(''session_id'', Str ''abc''), (''status'', Str ''pending'')])"
        "Obj [(''session_id'', Str ''abc''), (''status'', Str ''pending'')]"
        "Str ''abc''" None]
  by (simp add: neverCompletes_def answering_def ok_def pendingAnswer_def reportedStatus_def)

text \<open>
  C6. When the start call returns a session identifier, the status queries before the
  \<open>k\<close>-th leave the session pending and the \<open>k\<close>-th reports \<^verbatim>\<open>'error'\<close>, the loop ends
  on that attempt, with exactly \<open>k\<close> status queries made, and the operation returns an
  error object carrying the backend's \<^verbatim>\<open>error\<close> value, or \<^verbatim>\<open>'Analysis failed'\<close> when
  the backend gave none (or a falsy one).
\<close>

theorem analyzeVideo_error_on_kth_poll:
  assumes start: "net 0 (startRequest videoUrl) = Inr r0" "json r0 = Inr d0"
      "getProp d0 ''session_id'' = Inr sid" "truthy sid"
    and k: "1 \<le> k" "k \<le> 60"
    and pending: "\<forall>i. 1 \<le> i \<and> i < k \<longrightarrow> pendingAnswer (net i (statusRequest sid))"
    and failed: "net k (statusRequest sid) = Inr r" "json r = Inr d"
      "getProp d ''status'' = Inr (Str ''error'')"
  shows "\<exists>err. getProp d ''error'' = Inr err \<and>
           analyzeVideo_execute net videoUrl analysisType [] =
             (Obj [(''error'', if truthy err then err else Str ''Analysis failed'')],
              Fetched (startRequest videoUrl) # pollRounds sid k) \<and>
           requestsOf (snd (analyzeVideo_execute net videoUrl analysisType [])) =
             startRequest videoUrl # replicate k (statusRequest sid)"
proof -
  obtain err where err: "getProp d ''error'' = Inr err"
    using getProp_total [OF failed(3)] by blast
  define tr0 where "tr0 = [Fetched (startRequest videoUrl)]"
  have c0: "fetchCount tr0 = 1" by (simp add: tr0_def fetchCount_def)
  obtain n where n: "k = Suc n" using k(1) by (cases k) simp_all
  have "analyzeVideoTry net videoUrl [] = poll net sid 0 tr0"
    using analyze_started [of net "[]" videoUrl r0 d0 sid] start by (simp add: tr0_def)
  also have "\<dots> = poll net sid (0 + n) (tr0 @ pollRounds sid n)"
    using pending k(2) n c0 by (intro poll_pending_rounds) (simp_all add: maxAttempts_def)
  also have "\<dots> = (Inr (Obj [(''error'', js_or err (Str ''Analysis failed''))]),
                    (tr0 @ pollRounds sid n) @ [Waited 5000, Fetched (statusRequest sid)])"
    using failed err k(2) n c0 by (intro poll_step_error) (simp_all add: maxAttempts_def)
  finally have "analyzeVideoTry net videoUrl [] =
      (Inr (Obj [(''error'', js_or err (Str ''Analysis failed''))]),
       Fetched (startRequest videoUrl) # pollRounds sid k)"
    by (simp add: tr0_def n pollRounds_snoc)
  then show ?thesis using err by (simp add: analyzeVideo_execute_def js_or_def)
qed

theorem analyzeVideo_error_on_kth_poll_witness:
  "pendingAnswer (failsOnSecondPoll 1 (statusRequest (Str ''abc''))) \<and>
   analyzeVideo_execute failsOnSecondPoll ''http://v'' None [] =
     (Obj [(''error'', Str ''Video not found'')],
      Fetched (startRequest ''http://v'') # pollRounds (Str ''abc'') 2)"
proof -
  have p: "\<forall>i. 1 \<le> i \<and> i < 2 \<longrightarrow>
             pendingAnswer (failsOnSecondPoll i (statusRequest (Str ''abc'')))"
  proof (intro allI impI)
    fix i :: nat assume "1 \<le> i \<and> i < 2"
    then have "i = 1" by simp
    then show "pendingAnswer (failsOnSecondPoll i (statusRequest (Str ''abc'')))"
      by (simp add: failsOnSecondPoll_def scripted_def ok_def pendingAnswer_def
            reportedStatus_def)
  qed
  from p have p1: "pendingAnswer (failsOnSecondPoll 1 (statusRequest (Str ''abc'')))"
    by simp
  show ?thesis
    using p p1 analyzeVideo_error_on_kth_poll
      [of failsOnSecondPoll "''http://v''"
          "ok (Obj [(''session_id'', Str ''abc''), (''status'', Str ''pending'')])"
          "Obj [(''session_id'', Str ''abc''), (''status'', Str ''pending'')]"
          "Str ''abc''" 2
          "ok (Obj [(''status'', Str ''error''), (''error'', Str ''Video not found'')])"
          "Obj [(''status'', Str ''error''), (''error'', Str ''Video not found'')]" None]
    by (simp add: failsOnSecondPoll_def scripted_def ok_def)
qed

text \<open>
  C7, as the specification states it, fails: a start response whose body is \<^verbatim>\<open>null\<close>
  contains no session identifier, but destructuring it throws, and the operation reports
  the caught error and not \<^verbatim>\<open>'Failed to start analysis'\<close>.
\<close>

theorem analyzeVideo_null_start_body_counterexample:
  "answering (ok Null) 0 (startRequest ''http://v'') = Inr (ok Null) \<and>
   json (ok Null) = Inr Null \<and>
   analyzeVideo_execute (answering (ok Null)) ''http://v'' None [] =
     (Obj [(''error'',
            Str (''Analysis error: TypeError: Cannot destructure property ''
                   @ quoted ''session_id'' @ '' of '' @ quoted ''(intermediate value)''
                   @ '' as it is null.''))],
      [Fetched (startRequest ''http://v'')]) \<and>
   fst (analyzeVideo_execute (answering (ok Null)) ''http://v'' None []) \<noteq>
     Obj [(''error'', Str ''Failed to start analysis'')]"
  by (simp add: analyzeVideo_execute_def analyzeVideoTry_def fetchJson_def doFetch_def
        answering_def ok_def quoted_def)

text \<open>
  C7, amended. When the start response parses to a value whose \<^verbatim>\<open>session_id\<close> property
  is absent or falsy, the operation returns \<^verbatim>\<open>{error: 'Failed to start analysis'}\<close>.
  When there is no value to read a session identifier from (the body is \<^verbatim>\<open>null\<close>, the
  body does not parse, or the fetch rejects), it returns
  \<^verbatim>\<open>{error: `Analysis error: ${error}`}\<close> for the error caught. In each of these cases
  the start request is the only request made: no status query, no wait.
\<close>

theorem analyzeVideo_no_session_id:
  "(\<forall>r0 d0 sid.
      net 0 (startRequest videoUrl) = Inr r0 \<and> json r0 = Inr d0 \<and>
      getProp d0 ''session_id'' = Inr sid \<and> \<not> truthy sid \<longrightarrow>
        analyzeVideo_execute net videoUrl analysisType [] =
          (Obj [(''error'', Str ''Failed to start analysis'')],
           [Fetched (startRequest videoUrl)])) \<and>
   (\<forall>r0 d0 e.
      net 0 (startRequest videoUrl) = Inr r0 \<and> json r0 = Inr d0 \<and>
      destructure d0 ''session_id'' = Inl e \<longrightarrow>
        (d0 = Null \<or> d0 = Undefined) \<and>
        analyzeVideo_execute net videoUrl analysisType [] =
          (Obj [(''error'', Str (''Analysis error: '' @ exnText e))],
           [Fetched (startRequest videoUrl)])) \<and>
   (\<forall>r0 e.
      net 0 (startRequest videoUrl) = Inr r0 \<and> json r0 = Inl e \<longrightarrow>
        analyzeVideo_execute net videoUrl analysisType [] =
          (Obj [(''error'', Str (''Analysis error: '' @ exnText e))],
           [Fetched (startRequest videoUrl)])) \<and>
   (\<forall>e.
      net 0 (startRequest videoUrl) = Inl e \<longrightarrow>
        analyzeVideo_execute net videoUrl analysisType [] =
          (Obj [(''error'', Str (''Analysis error: '' @ exnText e))],
           [Fetched (startRequest videoUrl)]))"
proof -
  have nullish: "d0 = Null \<or> d0 = Undefined" if "destructure d0 ''session_id'' = Inl e" for d0 e
    using that by (cases d0) (simp_all split: option.splits)
  show ?thesis
    using nullish
    by (auto simp: analyzeVideo_execute_def analyzeVideoTry_def fetchJson_def doFetch_def
          destructure_read)
qed

theorem analyzeVideo_no_session_id_witness:
  "analyzeVideo_execute (answering (ok (Obj [(''status'', Str ''rejected'')]))) ''http://v'' None [] =
     (Obj [(''error'', Str ''Failed to start analysis'')], [Fetched (startRequest ''http://v'')])
   \<and> analyzeVideo_execute (answering (ok (Obj [(''session_id'', Str [])]))) ''http://v'' None [] =
     (Obj [(''error'', Str ''Failed to start analysis'')], [Fetched (startRequest ''http://v'')])
   \<and> analyzeVideo_execute (answering (ok Null)) ''http://v'' None [] =
     (Obj [(''error'',
            Str (''Analysis error: '' @ exnText (TypeError
                   (''Cannot destructure property '' @ quoted ''session_id'' @ '' of ''
                      @ quoted ''(intermediate value)'' @ '' as it is null.''))))],
      [Fetched (startRequest ''http://v'')])
   \<and> analyzeVideo_execute (scripted []) ''http://v'' None [] =
     (Obj [(''error'', Str ''Analysis error: TypeError: Failed to fetch'')],
      [Fetched (startRequest ''http://v'')])"
  using analyzeVideo_no_session_id
      [of "answering (ok (Obj [(''status'', Str ''rejected'')]))" "''http://v''" None]
    analyzeVideo_no_session_id
      [of "answering (ok (Obj [(''session_id'', Str [])]))" "''http://v''" None]
    analyzeVideo_no_session_id [of "answering (ok Null)" "''http://v''" None]
    analyzeVideo_no_session_id [of "scripted []" "''http://v''" None]
  by (simp add: answering_def ok_def scripted_def)

text \<open>
  C10. The \<^verbatim>\<open>analysisType\<close> argument has no influence: two executions that differ only
  in it (left out included), against the same backend answers, return the same result and
  leave the same trace. The first thing either does is the start request, whose body is
  the fixed object \<^verbatim>\<open>{video_input, transcribe_model, vision_model, frame_sample_rate}\<close>
  with no mention of the analysis type.
\<close>

theorem analyzeVideo_ignores_analysisType:
  "analyzeVideo_execute net videoUrl a tr = analyzeVideo_execute net videoUrl b tr
   \<and> take 1 (snd (analyzeVideo_execute net videoUrl a [])) = [Fetched (startRequest videoUrl)]
   \<and> rbody (startRequest videoUrl) =
       Some (Obj [(''video_input'', Str videoUrl),
                  (''transcribe_model'', Str ''gpt-4o-mini-transcribe''),
                  (''vision_model'', Str ''gpt-4o-mini''),
                  (''frame_sample_rate'', Num 1)])"
proof -
  obtain ext where "snd (analyzeVideoTry net videoUrl []) = [] @ Fetched (startRequest videoUrl) # ext"
    using analyzeVideoTry_trace [of net videoUrl "[]"] by blast
  then have "take 1 (snd (analyzeVideo_execute net videoUrl a [])) = [Fetched (startRequest videoUrl)]"
    by (simp add: analyzeVideo_execute_trace)
  moreover have "analyzeVideo_execute net videoUrl a tr = analyzeVideo_execute net videoUrl b tr"
    by (simp add: analyzeVideo_execute_def)
  moreover have "rbody (startRequest videoUrl) =
       Some (Obj [(''video_input'', Str videoUrl),
                  (''transcribe_model'', Str ''gpt-4o-mini-transcribe''),
                  (''vision_model'', Str ''gpt-4o-mini''),
                  (''frame_sample_rate'', Num 1)])"
    by (simp add: startRequest_def)
  ultimately show ?thesis by simp
qed

theorem analyzeVideo_ignores_analysisType_witness:
  "analyzeVideo_execute neverCompletes ''http://v'' (Some ''transcript'') [] =
     analyzeVideo_execute neverCompletes ''http://v'' None []"
  using analyzeVideo_ignores_analysisType
    [of neverCompletes "''http://v''" "Some ''transcript''" "[]" None]
  by simp

section \<open>The session identifier\<close>





section \<open>The voice-command dispatcher\<close>

text \<open>
  Against a keyword in small letters, agreeing up to case is what lowering the text and
  comparing tests.
\<close>

lemma alphabets:
  "distinct ''abcdefghijklmnopqrstuvwxyz''"
  "distinct ''ABCDEFGHIJKLMNOPQRSTUVWXYZ''"
  "set ''abcdefghijklmnopqrstuvwxyz'' \<inter> set ''ABCDEFGHIJKLMNOPQRSTUVWXYZ'' = {}"
  "length ''abcdefghijklmnopqrstuvwxyz'' = length ''ABCDEFGHIJKLMNOPQRSTUVWXYZ''"
  by simp_all

lemma sameIgnoringCase_lower:
  assumes "smallLetter k"
  shows "sameIgnoringCase t k = (toLowerChar t = k)"
proof -
  define L where "L = ''abcdefghijklmnopqrstuvwxyz''"
  define U where "U = ''ABCDEFGHIJKLMNOPQRSTUVWXYZ''"
  have dL: "distinct L" and dU: "distinct U" and disj: "set L \<inter> set U = {}"
    and len: "length L = length U"
    unfolding L_def U_def by (rule alphabets)+
  have cap: "capitalOf c = map_of (zip L U) c" for c
    by (simp add: capitalOf_def L_def U_def)
  have low: "toLowerChar c = (case map_of (zip U L) c of None \<Rightarrow> c | Some l \<Rightarrow> l)" for c
    by (simp add: toLowerChar_def L_def U_def)
  from assms obtain j where j: "j < length L" "k = L ! j"
    unfolding smallLetter_def L_def [symmetric] by (auto simp: in_set_conv_nth)
  have capk: "capitalOf k = Some (U ! j)"
    unfolding cap j(2) using len dL j(1) by (simp add: map_of_zip_nth)
  have kL: "k \<in> set L" using j by simp
  have nocap: "capitalOf t \<noteq> Some k"
  proof
    assume "capitalOf t = Some k"
    then have "(t, k) \<in> set (zip L U)" unfolding cap by (rule map_of_SomeD)
    then have "k \<in> set U" by (rule set_zip_rightD)
    with kL disj show False by blast
  qed
  show ?thesis
  proof (cases "t \<in> set U")
    case True
    then obtain i where i: "i < length U" "t = U ! i" by (auto simp: in_set_conv_nth)
    have "toLowerChar t = L ! i"
      unfolding low i(2) using len dU i(1) by (simp add: map_of_zip_nth)
    moreover have "L ! i = L ! j \<longleftrightarrow> i = j"
      using dL i(1) j(1) len by (simp add: nth_eq_iff_index_eq)
    moreover have "U ! j = U ! i \<longleftrightarrow> i = j"
      using dU i(1) j(1) len by (auto simp: nth_eq_iff_index_eq)
    moreover have "t \<noteq> k" using True kL disj by blast
    ultimately show ?thesis
      using nocap capk by (simp add: sameIgnoringCase_def i(2) j(2))
  next
    case False
    then have "map_of (zip U L) t = None"
      using len by (simp add: map_of_zip_is_None)
    then have "toLowerChar t = t" unfolding low by simp
    moreover have "U ! j \<noteq> t" using False j(1) len by (metis nth_mem)
    ultimately show ?thesis
      using nocap capk by (auto simp: sameIgnoringCase_def)
  qed
qed

lemma startsWith_lower:
  "list_all smallLetter kw \<Longrightarrow>
     startsWithIgnoringCase str kw = prefix kw (toLowerCase str)"
  by (induction str kw rule: startsWithIgnoringCase.induct)
     (auto simp: toLowerCase_def sameIgnoringCase_lower)

lemma occurs_lower:
  "list_all smallLetter kw \<Longrightarrow> occursIgnoringCase str kw = sublist kw (toLowerCase str)"
proof (induction str)
  case Nil
  then show ?case by (auto simp: toLowerCase_def)
next
  case (Cons t ts)
  have "sublist kw (toLowerCase (t # ts)) \<longleftrightarrow>
          prefix kw (toLowerCase (t # ts)) \<or> sublist kw (toLowerCase ts)"
    by (simp add: toLowerCase_def sublist_Cons_right)
  with Cons show ?case by (simp add: startsWith_lower)
qed

text \<open>The specification's rule, written out as the chain of tests it amounts to.\<close>

lemma keywords_small:
  "list_all smallLetter ''play''" "list_all smallLetter ''resume''"
  "list_all smallLetter ''pause''" "list_all smallLetter ''stop''"
  "list_all smallLetter ''describe''" "list_all smallLetter ''transcript''"
  "list_all smallLetter ''transcribe''"
  by (simp_all add: smallLetter_def)

lemmas occurs_keyword = keywords_small [THEN occurs_lower]

lemma specClassify_unfold:
  "specClassify str =
     (let c = toLowerCase str in
      if sublist ''play'' c \<or> sublist ''resume'' c then Play
      else if sublist ''pause'' c then Pause
      else if sublist ''stop'' c then Stop
      else if sublist ''describe'' c then Describe
      else if sublist ''transcript'' c \<or> sublist ''transcribe'' c then Transcript
      else Unrecognized)"
  by (simp add: specClassify_def priorityOrder_def occurs_keyword Let_def)

lemma lowered_examples:
  "toLowerCase ''please pause and describe'' = ''please pause and describe''"
  "toLowerCase ''Please PAUSE and Describe'' = ''please pause and describe''"
  "toLowerCase ''RESUME'' = ''resume''"
  "toLowerCase ''pa use'' = ''pa use''"
  by (simp_all add: toLowerCase_def toLowerChar_def)

lemma example_classifies: "specClassify ''please pause and describe'' = Pause"
  unfolding specClassify_unfold lowered_examples by (simp add: sublist_Cons_right)

text \<open>The rule itself, run on capitals: it does not depend on how the program lowers.\<close>

lemma occursIgnoringCase_examples:
  "occursIgnoringCase ''PAUSE it'' ''pause''"
  "occursIgnoringCase ''do Stop'' ''stop''"
  "\<not> occursIgnoringCase ''PAVSE'' ''pause''"
  by (simp_all add: sameIgnoringCase_def capitalOf_def)

text \<open>
  C4. The dispatcher classifies as the specification's rule does: case-insensitive
  substring matching in the order play/resume, pause, stop, describe,
  transcript/transcribe, the first match deciding and no match giving the
  \<^verbatim>\<open>'Command not recognized'\<close> error. For play, pause, stop and unrecognized input the
  whole result is the fixed object and nothing is fetched; for describe and transcript the
  result carries that action tag. \<^verbatim>\<open>"please pause and describe"\<close> classifies as pause.
\<close>

theorem processVoiceCommand_priority_order:
  "(specClassify command = Play \<longrightarrow>
      processVoiceCommand_execute net command sessionId tr =
        (Obj [(''action'', Str ''play''), (''message'', Str ''Playing video'')], tr)) \<and>
   (specClassify command = Pause \<longrightarrow>
      processVoiceCommand_execute net command sessionId tr =
        (Obj [(''action'', Str ''pause''), (''message'', Str ''Video paused'')], tr)) \<and>
   (specClassify command = Stop \<longrightarrow>
      processVoiceCommand_execute net command sessionId tr =
        (Obj [(''action'', Str ''stop''), (''message'', Str ''Video stopped'')], tr)) \<and>
   (specClassify command = Describe \<longrightarrow>
      getProp (fst (processVoiceCommand_execute net command sessionId tr)) ''action'' =
        Inr (Str ''describe'')) \<and>
   (specClassify command = Transcript \<longrightarrow>
      getProp (fst (processVoiceCommand_execute net command sessionId tr)) ''action'' =
        Inr (Str ''transcript'')) \<and>
   (specClassify command = Unrecognized \<longrightarrow>
      processVoiceCommand_execute net command sessionId tr =
        (Obj [(''error'', Str ''Command not recognized'')], tr)) \<and>
   specClassify ''please pause and describe'' = Pause"
  unfolding specClassify_unfold [of command] example_classifies
  by (simp add: processVoiceCommand_execute_def includesStr_def Let_def
        split: option.splits prod.splits)

theorem processVoiceCommand_priority_order_witness:
  "specClassify ''Please PAUSE and Describe'' = Pause \<and>
   processVoiceCommand_execute neverCompletes ''Please PAUSE and Describe'' (Some ''abc'') [] =
     (Obj [(''action'', Str ''pause''), (''message'', Str ''Video paused'')], []) \<and>
   processVoiceCommand_execute neverCompletes ''please pause and describe'' (Some ''abc'') [] =
     (Obj [(''action'', Str ''pause''), (''message'', Str ''Video paused'')], []) \<and>
   specClassify ''RESUME'' = Play \<and>
   processVoiceCommand_execute neverCompletes ''RESUME'' None [] =
     (Obj [(''action'', Str ''play''), (''message'', Str ''Playing video'')], []) \<and>
   specClassify ''pa use'' = Unrecognized \<and>
   processVoiceCommand_execute neverCompletes ''pa use'' None [] =
     (Obj [(''error'', Str ''Command not recognized'')], [])"
proof -
  have c: "specClassify ''Please PAUSE and Describe'' = Pause" "specClassify ''RESUME'' = Play"
    "specClassify ''pa use'' = Unrecognized"
    unfolding specClassify_unfold lowered_examples by (simp_all add: sublist_Cons_right)
  show ?thesis
    using c processVoiceCommand_priority_order
      [of "''Please PAUSE and Describe''" neverCompletes "Some ''abc''" "[]"]
      processVoiceCommand_priority_order
      [of "''please pause and describe''" neverCompletes "Some ''abc''" "[]"]
      processVoiceCommand_priority_order [of "''RESUME''" neverCompletes None "[]"]
      processVoiceCommand_priority_order [of "''pa use''" neverCompletes None "[]"]
    by simp
qed

text \<open>
  C5. For a command that reaches the describe branch (its lowered text contains
  \<^verbatim>\<open>describe\<close> and none of \<^verbatim>\<open>play\<close>, \<^verbatim>\<open>resume\<close>, \<^verbatim>\<open>pause\<close>, \<^verbatim>\<open>stop\<close>): with a
  session identifier (a non-empty string) the dispatcher calls
  \<^verbatim>\<open>getSceneDescription.execute({sessionId})\<close>, which makes the one scenes request for
  that identifier, and returns its result under \<^verbatim>\<open>{action: 'describe', data: ...}\<close>; with
  none (absent, or the empty string) it returns
  \<^verbatim>\<open>{action: 'describe', message: 'No active session'}\<close> and the trace is untouched.
\<close>

theorem processVoiceCommand_describe:
  assumes "includesStr (toLowerCase command) ''describe''"
    and "\<not> includesStr (toLowerCase command) ''play''"
    and "\<not> includesStr (toLowerCase command) ''resume''"
    and "\<not> includesStr (toLowerCase command) ''pause''"
    and "\<not> includesStr (toLowerCase command) ''stop''"
  shows "(\<forall>s. sessionId = Some s \<and> s \<noteq> [] \<longrightarrow>
            processVoiceCommand_execute net command sessionId tr =
              (Obj [(''action'', Str ''describe''),
                    (''data'', fst (getSceneDescription_execute net s None tr))],
               tr @ [Fetched (getRequest (''/api/video-analysis?sessionId='' @ s @ ''&action=scenes''))]))
       \<and> (sessionId = None \<or> sessionId = Some [] \<longrightarrow>
            processVoiceCommand_execute net command sessionId tr =
              (Obj [(''action'', Str ''describe''), (''message'', Str ''No active session'')], tr))"
proof -
  have tr: "snd (getSceneDescription_execute net s None tr) =
      tr @ [Fetched (getRequest (''/api/video-analysis?sessionId='' @ s @ ''&action=scenes''))]" for s
    by (simp add: getSceneDescription_execute_def fetchJson_def doFetch_def retrievalUrl_def
          split: sum.splits)
  show ?thesis
    using assms tr
    by (auto simp: processVoiceCommand_execute_def Let_def case_prod_unfold)
qed

theorem processVoiceCommand_describe_witness:
  "processVoiceCommand_execute (answering (ok (Arr [Str ''a cat on a sofa'']))) ''Describe the scene''
      (Some ''abc'') [] =
     (Obj [(''action'', Str ''describe''),
           (''data'', Obj [(''success'', Bool True), (''scenes'', Arr [Str ''a cat on a sofa''])])],
      [Fetched (getRequest ''/api/video-analysis?sessionId=abc&action=scenes'')])
   \<and> processVoiceCommand_execute (answering (ok (Arr [Str ''a cat on a sofa'']))) ''Describe the scene''
      None [] =
     (Obj [(''action'', Str ''describe''), (''message'', Str ''No active session'')], [])"
proof -
  have l: "toLowerCase ''Describe the scene'' = ''describe the scene''"
    by (simp add: toLowerCase_def toLowerChar_def)
  have h: "includesStr (toLowerCase ''Describe the scene'') ''describe''"
    "\<not> includesStr (toLowerCase ''Describe the scene'') ''play''"
    "\<not> includesStr (toLowerCase ''Describe the scene'') ''resume''"
    "\<not> includesStr (toLowerCase ''Describe the scene'') ''pause''"
    "\<not> includesStr (toLowerCase ''Describe the scene'') ''stop''"
    unfolding l includesStr_def by (simp_all add: sublist_Cons_right)
  have g: "fst (getSceneDescription_execute (answering (ok (Arr [Str ''a cat on a sofa'']))) ''abc'' None [])
     = Obj [(''success'', Bool True), (''scenes'', Arr [Str ''a cat on a sofa''])]"
    by (simp add: getSceneDescription_execute_def fetchJson_def doFetch_def answering_def ok_def)
  show ?thesis
    using processVoiceCommand_describe [OF h, of "Some ''abc''" "answering (ok (Arr [Str ''a cat on a sofa'']))" "[]"]
      processVoiceCommand_describe [OF h, of None "answering (ok (Arr [Str ''a cat on a sofa'']))" "[]"]
    by (simp add: g)
qed

section \<open>The proxy route's read handler\<close>

text \<open>
  C3, as the specification states it, fails: the handler does not pass the backend's
  status code on. A backend that answers 404 with a JSON body gets that body relayed
  under status 200.
\<close>

theorem GET_status_passthrough_counterexample:
  "map_of [(''sessionId'', ''abc'')] ''sessionId'' = Some ''abc'' \<and>
   answering notFound 0 (getRequest ''http://localhost:8000/api/status/abc'') = Inr notFound \<and>
   json notFound = Inr (Obj [(''detail'', Str ''Session not found'')]) \<and>
   httpStatus notFound = 404 \<and>
   GET None (answering notFound) [(''sessionId'', ''abc'')] [] =
     (\<lparr>status = 200, body = Obj [(''detail'', Str ''Session not found'')]\<rparr>,
      [Fetched (getRequest ''http://localhost:8000/api/status/abc'')]) \<and>
   status (fst (GET None (answering notFound) [(''sessionId'', ''abc'')] [])) \<noteq> httpStatus notFound"
  by (simp add: GET_def fetchJson_def doFetch_def answering_def notFound_def NextResponse_json_def
        PYTHON_API_URL_def backendEndpoint_def)

text \<open>
  C3, amended. For a request with a non-empty session identifier, when the forwarded fetch
  and the JSON parse succeed, the answer is the backend's JSON body, unchanged, under
  status 200, whatever status the backend answered with. The answer has status 400 exactly
  when the session identifier is missing or empty, and status 500 exactly when there is one
  and the forwarding failed (the fetch rejected or the body did not parse).
\<close>

theorem GET_status_and_body:
  "(\<forall>sid resp d.
      map_of searchParams ''sessionId'' = Some sid \<and> sid \<noteq> [] \<and>
      net (fetchCount tr) (getRequest (PYTHON_API_URL env @ backendEndpoint searchParams sid)) = Inr resp \<and>
      json resp = Inr d \<longrightarrow>
        fst (GET env net searchParams tr) = \<lparr>status = 200, body = d\<rparr>) \<and>
   (status (fst (GET env net searchParams tr)) = 400 \<longleftrightarrow>
      map_of searchParams ''sessionId'' = None \<or> map_of searchParams ''sessionId'' = Some []) \<and>
   (status (fst (GET env net searchParams tr)) = 500 \<longleftrightarrow>
      (\<exists>sid e. map_of searchParams ''sessionId'' = Some sid \<and> sid \<noteq> [] \<and>
         fst (fetchJson net (getRequest (PYTHON_API_URL env @ backendEndpoint searchParams sid)) tr)
           = Inl e))"
  by (auto simp: GET_def fetchJson_def doFetch_def NextResponse_json_def
        split: option.splits sum.splits)

theorem GET_status_and_body_witness:
  "fst (GET None (answering notFound) [(''sessionId'', ''abc'')] []) =
     \<lparr>status = 200, body = Obj [(''detail'', Str ''Session not found'')]\<rparr>"
  using GET_status_and_body [of "[(''sessionId'', ''abc'')]" "answering notFound" "[]" None]
  by (simp add: answering_def notFound_def)

text \<open>The write handler answers a forwarded request the same way, under status 200.\<close>

lemma POST_relays_under_200:
  assumes "net (fetchCount tr)
             \<lparr>rmethod = ''POST'', url = PYTHON_API_URL env @ ''/api/analyze'',
              headers = [(''Content-Type'', ''application/json'')], rbody = Some b\<rparr> = Inr resp"
    and "json resp = Inr d"
  shows "fst (POST env net (Inr b) tr) = \<lparr>status = 200, body = d\<rparr>"
  using assms by (simp add: POST_def fetchJson_def doFetch_def NextResponse_json_def)

text \<open>
  What \<^verbatim>\<open>encodeURIComponent\<close> does to a query: the result consists of characters that
  are safe in a URL component, decoding it gives the query back, and a query of plain
  characters only is its own encoding.
\<close>

lemma unreserved_urlPlain: "unreserved c = urlPlain c"
proof -
  define L where "L = ''abcdefghijklmnopqrstuvwxyz''"
  define U where "U = ''ABCDEFGHIJKLMNOPQRSTUVWXYZ''"
  define D where "D = ''0123456789''"
  define M where "M = ''-_.!~*()'' @ [CHR 0x27]"
  have "''ABCDEFGHIJKLMNOPQRSTUVWXYZabcdefghijklmnopqrstuvwxyz0123456789-_.!~*()'' @ [CHR 0x27]
          = U @ L @ D @ M"
    by (simp add: L_def U_def D_def M_def)
  then have "unreserved c \<longleftrightarrow> c \<in> set (U @ L @ D @ M)"
    by (simp only: unreserved_def)
  moreover have "urlPlain c \<longleftrightarrow>
      c \<in> set L \<or> c \<in> set U \<or> c \<in> set D \<or> c \<in> set M"
    by (simp only: urlPlain_def L_def U_def D_def M_def)
  ultimately show ?thesis by (simp only: set_append Un_iff) blast
qed

lemma hexValue_hexDigit: "n < 16 \<Longrightarrow> hexValue (hexDigit n) = Some n"
proof -
  assume "n < 16"
  then have "n \<in> set [0, 1, 2, 3, 4, 5, 6, 7, 8, 9, 10, 11, 12, 13, 14, 15]"
    by (simp add: numeral_eq_Suc less_Suc_eq) 
  then show ?thesis by (auto simp: hexValue_def hexDigit_def)
qed

lemma hexDigit_unreserved: "n < 16 \<Longrightarrow> urlPlain (hexDigit n)"
proof -
  assume "n < 16"
  then have "n \<in> set [0, 1, 2, 3, 4, 5, 6, 7, 8, 9, 10, 11, 12, 13, 14, 15]"
    by (simp add: numeral_eq_Suc less_Suc_eq)
  then show ?thesis by (auto simp: urlPlain_def hexDigit_def)
qed

lemma percent_reserved: "\<not> unreserved CHR ''%''"
  by (simp add: unreserved_def)

lemma byte_halves: "char_of (16 * ((of_char c :: nat) div 16) + (of_char c :: nat) mod 16) = c"
  by simp

lemma of_char_div16: "(of_char c :: nat) div 16 < 16"
  using nat_of_char_less_256 [of c] by arith

lemma percentDecode_encodeChar:
  "percentDecode (encodeChar c @ rest) = map_option ((#) c) (percentDecode rest)"
proof (cases "unreserved c")
  case True
  then have "c \<noteq> CHR ''%''" using percent_reserved by auto
  with True show ?thesis by (simp add: encodeChar_def)
next
  case False
  then show ?thesis
    by (simp add: encodeChar_def hexValue_hexDigit of_char_div16)
qed

lemma percentDecode_encodeURIComponent: "percentDecode (encodeURIComponent q) = Some q"
proof (induction q)
  case Nil
  then show ?case by (simp add: encodeURIComponent_def)
next
  case (Cons c q)
  have "encodeURIComponent (c # q) = encodeChar c @ encodeURIComponent q"
    by (simp add: encodeURIComponent_def)
  then show ?case using Cons by (simp add: percentDecode_encodeChar)
qed

lemma urlSafe_encodeURIComponent: "list_all urlSafe (encodeURIComponent q)"
  by (induction q)
     (simp_all add: encodeURIComponent_def encodeChar_def urlSafe_def hexDigit_unreserved
        of_char_div16 unreserved_urlPlain)

lemma encodeURIComponent_plain: "list_all urlPlain q \<Longrightarrow> encodeURIComponent q = q"
  by (induction q) (simp_all add: encodeURIComponent_def encodeChar_def unreserved_urlPlain)

text \<open>
  C8. For a request with \<^verbatim>\<open>action=search\<close>, a session identifier and a query, the
  handler makes one backend request: a GET to the search endpoint with
  \<^verbatim>\<open>session_id\<close> the identifier as given and \<^verbatim>\<open>query\<close> the URL-encoded term, which
  holds no character that would end or split the parameter and decodes to the query; when
  that request is answered with a JSON body, the body of the handler's answer is that
  value. Session \<^verbatim>\<open>abc\<close> with query \<^verbatim>\<open>cat\<close> gives
  \<^verbatim>\<open>/api/search?session_id=abc&query=cat\<close>.
\<close>

theorem GET_search_forwards:
  assumes "map_of searchParams ''sessionId'' = Some sid" "sid \<noteq> []"
    and "map_of searchParams ''action'' = Some ''search''"
    and "map_of searchParams ''query'' = Some q"
  shows "requestsOf (snd (GET env net searchParams [])) =
           [\<lparr>rmethod = ''GET'',
             url = PYTHON_API_URL env @ ''/api/search?session_id='' @ sid @ ''&query=''
                     @ encodeURIComponent q,
             headers = [], rbody = None\<rparr>]
         \<and> list_all urlSafe (encodeURIComponent q)
         \<and> percentDecode (encodeURIComponent q) = Some q
         \<and> (list_all urlPlain q \<longrightarrow> encodeURIComponent q = q)
         \<and> (\<forall>resp d.
               net 0 (getRequest (PYTHON_API_URL env @ ''/api/search?session_id='' @ sid
                                    @ ''&query='' @ encodeURIComponent q)) = Inr resp \<and>
               json resp = Inr d \<longrightarrow>
                 body (fst (GET env net searchParams [])) = d)"
proof -
  have "requestsOf (snd (GET env net searchParams [])) =
           [\<lparr>rmethod = ''GET'',
             url = PYTHON_API_URL env @ ''/api/search?session_id='' @ sid @ ''&query=''
                     @ encodeURIComponent q,
             headers = [], rbody = None\<rparr>]
         \<and> (\<forall>resp d.
               net 0 (getRequest (PYTHON_API_URL env @ ''/api/search?session_id='' @ sid
                                    @ ''&query='' @ encodeURIComponent q)) = Inr resp \<and>
               json resp = Inr d \<longrightarrow>
                 body (fst (GET env net searchParams [])) = d)"
    using assms
    by (auto simp: GET_def fetchJson_def doFetch_def NextResponse_json_def backendEndpoint_def
          getRequest_def split: sum.splits)
  then show ?thesis
    using urlSafe_encodeURIComponent [of q] percentDecode_encodeURIComponent [of q]
      encodeURIComponent_plain [of q]
    by blast
qed

theorem GET_search_forwards_witness:
  "requestsOf (snd (GET None (answering (ok (Arr [Str ''a cat''])))
       [(''sessionId'', ''abc''), (''action'', ''search''), (''query'', ''cat'')] [])) =
     [\<lparr>rmethod = ''GET'', url = ''http://localhost:8000/api/search?session_id=abc&query=cat'',
       headers = [], rbody = None\<rparr>]
   \<and> body (fst (GET None (answering (ok (Arr [Str ''a cat''])))
       [(''sessionId'', ''abc''), (''action'', ''search''), (''query'', ''cat'')] [])) =
     Arr [Str ''a cat'']
   \<and> requestsOf (snd (GET None (answering (ok (Arr [])))
       [(''sessionId'', ''abc''), (''action'', ''search''), (''query'', ''a b&x=1'')] [])) =
     [\<lparr>rmethod = ''GET'',
       url = ''http://localhost:8000/api/search?session_id=abc&query=a%20b%26x%3D1'',
       headers = [], rbody = None\<rparr>]
   \<and> percentDecode ''a%20b%26x%3D1'' = Some ''a b&x=1''"
proof -
  have e: "encodeURIComponent ''cat'' = ''cat''"
    "encodeURIComponent ''a b&x=1'' = ''a%20b%26x%3D1''"
    by (simp_all add: encodeURIComponent_def encodeChar_def unreserved_def hexDigit_def)
  show ?thesis
    using GET_search_forwards
      [of "[(''sessionId'', ''abc''), (''action'', ''search''), (''query'', ''cat'')]"
          "''abc''" "''cat''" None "answering (ok (Arr [Str ''a cat'']))"]
      GET_search_forwards
      [of "[(''sessionId'', ''abc''), (''action'', ''search''), (''query'', ''a b&x=1'')]"
          "''abc''" "''a b&x=1''" None "answering (ok (Arr []))"]
    by (simp add: e PYTHON_API_URL_def answering_def ok_def)
qed

end
